theory Spec2Isabelle
  imports Main "HOL-Library.Sublist"
begin

section \<open>Go library functions used by the program\<close>

text \<open>
  Strings are byte lists. The functions of this section are the parts of the Go standard
  library that \<open>main\<close> calls on the paths verified below: \<open>strings.Index\<close>,
  \<open>strings.Count\<close>, \<open>strings.Split\<close>, \<open>strings.SplitAfterN\<close>,
  \<open>strings.HasPrefix\<close>, \<open>strconv.Atoi\<close>, \<open>strconv.Itoa\<close> and the comparison and
  subtraction of \<open>time.Time\<close> values. \<open>int\<close> is taken to be 64 bits wide.
\<close>

subsection \<open>Panics and exits\<close>

text \<open>
  A run ends early either by a runtime panic (index out of range, with the index and the
  length of the slice; or the dereference of a nil pointer) or by \<open>os.Exit\<close> with a
  status.
\<close>

datatype halt = IndexOutOfRange nat nat | NilDereference | OsExit int

definition go_index :: "'a list \<Rightarrow> nat \<Rightarrow> halt + 'a" where
  "go_index xs i = (if i < length xs then Inr (xs ! i) else Inl (IndexOutOfRange i (length xs)))"

subsection \<open>Package strings\<close>

text \<open>\<open>strings.Index\<close>: the position of the first instance of \<open>sep\<close>, \<open>None\<close> for -1.\<close>

fun strings_Index :: "string \<Rightarrow> string \<Rightarrow> nat option" where
  "strings_Index [] sep = (if sep = [] then Some 0 else None)"
| "strings_Index (c # cs) sep =
     (if prefix sep (c # cs) then Some 0 else map_option Suc (strings_Index cs sep))"

definition strings_HasPrefix :: "string \<Rightarrow> string \<Rightarrow> bool" where
  "strings_HasPrefix s p = prefix p s"

text \<open>
  \<open>strings.Count\<close>: the number of non-overlapping instances of \<open>sep\<close>; for the empty
  separator Go counts the characters plus one.
\<close>

function strings_Count :: "string \<Rightarrow> string \<Rightarrow> nat" where
  "strings_Count s sep =
     (if sep = [] then length s + 1
      else (case strings_Index s sep of
              None \<Rightarrow> 0
            | Some m \<Rightarrow> Suc (strings_Count (drop (m + length sep) s) sep)))"
  by pat_completeness auto
termination
proof (relation "measure (\<lambda>(s, sep). length s)")
  show "wf (measure (\<lambda>(s, sep). length s))" by simp
next
  fix s sep :: string and m :: nat
  assume sep: "sep \<noteq> []" and idx: "strings_Index s sep = Some m"
  from sep idx have "s \<noteq> []" by (cases s) auto
  with sep show "((drop (m + length sep) s, sep), (s, sep)) \<in> measure (\<lambda>(s, sep). length s)"
    by (cases s) auto
qed

declare strings_Count.simps [simp del]

text \<open>
  The loop of \<open>genSplit\<close>: \<open>k\<close> is the number of further pieces the result slice has room
  for before its last element (\<open>n - 1 - i\<close> in the source), \<open>sepSave\<close> the number of
  separator bytes kept at the end of each piece.
\<close>

fun genSplit_loop :: "string \<Rightarrow> string \<Rightarrow> nat \<Rightarrow> nat \<Rightarrow> string list" where
  "genSplit_loop s sep sepSave 0 = [s]"
| "genSplit_loop s sep sepSave (Suc k) =
     (case strings_Index s sep of
        None \<Rightarrow> [s]
      | Some m \<Rightarrow> take (m + sepSave) s # genSplit_loop (drop (m + length sep) s) sep sepSave k)"

text \<open>
  \<open>genSplit\<close> for a non-empty separator (the program only passes \<open>","\<close> and \<open>" "\<close>; the
  branch that explodes a string on the empty separator is left out). A negative \<open>n\<close>
  means all pieces: one more than the count of separators, which is never above the bound
  \<open>len(s) + 1\<close> that the source then applies to \<open>n\<close>.
\<close>

definition genSplit :: "string \<Rightarrow> string \<Rightarrow> nat \<Rightarrow> int \<Rightarrow> string list" where
  "genSplit s sep sepSave n =
     (if n = 0 then []
      else if n < 0 then genSplit_loop s sep sepSave (strings_Count s sep)
      else genSplit_loop s sep sepSave
             (nat (if n > int (length s) + 1 then int (length s) + 1 else n) - 1))"

definition strings_Split :: "string \<Rightarrow> string \<Rightarrow> string list" where
  "strings_Split s sep = genSplit s sep 0 (-1)"

definition strings_SplitAfterN :: "string \<Rightarrow> string \<Rightarrow> int \<Rightarrow> string list" where
  "strings_SplitAfterN s sep n = genSplit s sep (length sep) n"

subsection \<open>Package strconv\<close>

definition is_digit :: "char \<Rightarrow> bool" where
  "is_digit c = (48 \<le> (of_char c :: nat) \<and> (of_char c :: nat) \<le> 57)"

fun digits_value :: "int \<Rightarrow> string \<Rightarrow> int" where
  "digits_value acc [] = acc"
| "digits_value acc (c # cs) = digits_value (acc * 10 + (of_char c - 48)) cs"

text \<open>
  \<open>strconv.Atoi\<close>: an optional sign, then one or more decimal digits, and a value that
  fits a signed 64-bit integer; \<open>None\<close> stands for a non-nil error (syntax or range).
\<close>

definition strconv_Atoi :: "string \<Rightarrow> int option" where
  "strconv_Atoi s =
     (let neg = (s \<noteq> [] \<and> hd s = CHR ''-'');
          ds = (if s \<noteq> [] \<and> (hd s = CHR ''-'' \<or> hd s = CHR ''+'') then tl s else s)
      in if ds = [] \<or> \<not> list_all is_digit ds then None
         else (let v = (if neg then - digits_value 0 ds else digits_value 0 ds)
               in if v < - (2 ^ 63) \<or> 2 ^ 63 - 1 < v then None else Some v))"

definition digit_char :: "nat \<Rightarrow> char" where
  "digit_char d = ''0123456789'' ! d"

function nat_digits :: "nat \<Rightarrow> string" where
  "nat_digits n =
     (if n < 10 then [digit_char n] else nat_digits (n div 10) @ [digit_char (n mod 10)])"
  by pat_completeness auto
termination
  by (relation "measure (\<lambda>n. n)") auto

declare nat_digits.simps [simp del]

definition strconv_Itoa :: "int \<Rightarrow> string" where
  "strconv_Itoa i = (if i < 0 then CHR ''-'' # nat_digits (nat (- i)) else nat_digits (nat i))"

subsection \<open>Package time\<close>

text \<open>
  A \<open>time.Time\<close> is an instant, here the number of nanoseconds since the Unix epoch; a
  \<open>time.Duration\<close> is a signed 64-bit count of nanoseconds. \<open>Time.Sub\<close> saturates at
  the ends of the duration range. The zero \<open>Time\<close> is January 1 of year 1, 00:00:00 UTC.
\<close>

type_synonym go_time = int
type_synonym duration = int

definition zero_time :: go_time where
  "zero_time = - 62135596800 * 1000000000"

definition time_After :: "go_time \<Rightarrow> go_time \<Rightarrow> bool" where
  "time_After t u = (u < t)"

definition time_Before :: "go_time \<Rightarrow> go_time \<Rightarrow> bool" where
  "time_Before t u = (t < u)"

definition maxDuration :: duration where
  "maxDuration = 2 ^ 63 - 1"

definition minDuration :: duration where
  "minDuration = - (2 ^ 63)"

definition time_Sub :: "go_time \<Rightarrow> go_time \<Rightarrow> duration" where
  "time_Sub t u =
     (let d = t - u
      in if minDuration \<le> d \<and> d \<le> maxDuration then d
         else if time_Before t u then minDuration
         else maxDuration)"

text \<open>
  \<open>time.Unix(sec, 0)\<close>: the seconds are stored counted from year 1, in a signed 64-bit
  integer, so the sum wraps around for seconds at the far end of the range.
\<close>

definition unixToInternal :: int where
  "unixToInternal = 62135596800"

definition wrap64 :: "int \<Rightarrow> int" where
  "wrap64 x = (x + 2 ^ 63) mod 2 ^ 64 - 2 ^ 63"

definition time_Unix :: "int \<Rightarrow> go_time" where
  "time_Unix sec = (wrap64 (sec + unixToInternal) - unixToInternal) * 1000000000"

definition unix_seconds :: "go_time \<Rightarrow> int" where
  "unix_seconds t = t div 1000000000"

definition Hour :: duration where
  "Hour = 3600 * 1000000000"

section \<open>Data model\<close>

text \<open>
  \<open>uplisting.Booking\<close>, with the fields that \<open>main\<close> reads; the remaining fields of
  the JSON record (prices, identifiers, arrival) play no part in the decisions.
\<close>

record Booking =
  CheckOut :: string
  DepartureTime :: string
  GuestName :: string
  GuestEmail :: string
  GuestPhone :: string
  Status :: string
  Channel :: string

text \<open>\<open>textmagic.CustomFieldValue\<close>, \<open>textmagic.List\<close>, \<open>textmagic.CustomField\<close>.\<close>

record CustomFieldValue =
  cfv_Value :: string
  cfv_Id :: int

record List =
  list_Id :: int
  list_Name :: string

record CustomField =
  cf_Id :: int
  cf_Name :: string

record Contact =
  Id :: int
  FirstName :: string
  LastName :: string
  Phone :: string
  Email :: string
  CustomFieldValues :: "CustomFieldValue list"
  Lists :: "List list"

record MessageToContacts =
  Text :: string
  Contacts :: "Contact list"
  SendAt :: go_time

record contactBookingPair =
  contact :: Contact
  lastStay :: Booking

record state =
  stateField :: CustomField
  listId :: int
  contacts :: "string \<rightharpoonup> contactBookingPair"

record config =
  TemplateOld :: string
  TemplateRecent :: string
  TemplateDirect :: string

datatype tm_error = ErrNotFound | ErrAuth | ErrCustomFields | ErrResponse string

section \<open>The world outside the program\<close>

text \<open>
  The messaging service as the program can change it: the contacts it has accepted, the
  messages it has accepted for sending, and the custom field values it has stored (field
  id, contact id, value; newest first).
\<close>

record remote =
  created :: "Contact list"
  scheduled :: "MessageToContacts list"
  stored :: "(int \<times> int \<times> string) list"

text \<open>
  Everything the program asks of its libraries and of the two services, and cannot compute
  itself, is a field of the environment. \<open>timeParse layout value\<close> is \<open>time.Parse\<close>,
  \<open>None\<close> when it returns an error (it then returns the zero \<open>Time\<close>);
  \<open>phoneE164\<close> is \<open>libphonenumber.Parse\<close> with region GB followed by
  \<open>libphonenumber.Format\<close> in E164, \<open>None\<close> when the parse fails;
  \<open>replaceFirstName text first\<close> is \<open>strings.Replace\<close> of the placeholder of the first
  name in \<open>text\<close> by \<open>strings.TrimSpace(first)\<close>; \<open>todayAt19 now\<close> is \<open>time.Date\<close> of
  the day of \<open>now\<close> at 19:00 local time.

  The four answers are what happens to the HTTP request of a call of the messaging client in
  a given state of the service. Either the default transport gets no response
  (\<open>http.DefaultTransport.RoundTrip\<close> returns a nil response and an error: no connection,
  a timeout), or there is a response, and then the answer holds what the client call makes
  of it: an error (a status other than 200 to 204, a body that does not decode) or its
  value.
\<close>

datatype 'a roundtrip = NoResponse | Response 'a

record env =
  timeParse :: "string \<Rightarrow> string \<Rightarrow> go_time option"
  phoneE164 :: "string \<Rightarrow> string option"
  replaceFirstName :: "string \<Rightarrow> string \<Rightarrow> string"
  todayAt19 :: "go_time \<Rightarrow> go_time"
  getAnswer :: "remote \<Rightarrow> string \<Rightarrow> (tm_error + Contact) roundtrip"
  postAnswer :: "remote \<Rightarrow> Contact \<Rightarrow> (tm_error + int) roundtrip"
  sendAnswer :: "remote \<Rightarrow> MessageToContacts \<Rightarrow> (tm_error + int) roundtrip"
  putAnswer :: "remote \<Rightarrow> int \<Rightarrow> int \<Rightarrow> string \<Rightarrow> tm_error option roundtrip"

section \<open>The HTTP transport\<close>

text \<open>
  \<open>main\<close> gives both clients one \<open>http.Client\<close> whose transport is
  \<open>loggingTransport\<close>, so every request of the program passes through
  \<open>loggingTransport.RoundTrip\<close>. It calls the default transport and then
  \<open>httputil.DumpResponse(resp, true)\<close> before it returns the response and the error.
  \<open>DumpResponse\<close> reads \<open>resp.Body\<close> first: with the nil response of a failed request
  this is the dereference of a nil pointer, and the program panics. The errors of the two
  dump functions themselves are dropped.
\<close>

definition RoundTrip :: "'a roundtrip \<Rightarrow> halt + 'a" where
  "RoundTrip t = (case t of NoResponse \<Rightarrow> Inl NilDereference | Response a \<Rightarrow> Inr a)"

section \<open>The API clients\<close>

text \<open>\<open>Booking.DepartureAt\<close>: the error of \<open>time.Parse\<close> is dropped.\<close>

definition DepartureAt :: "env \<Rightarrow> Booking \<Rightarrow> go_time" where
  "DepartureAt e b =
     (case timeParse e ''2006-01-02 15:04:05'' (CheckOut b @ '' '' @ DepartureTime b) of
        None \<Rightarrow> zero_time
      | Some tm \<Rightarrow> tm)"

text \<open>\<open>Contact.CustomFieldValue\<close>: the value of the first entry with the given id.\<close>

definition CustomFieldValue :: "Contact \<Rightarrow> int \<Rightarrow> string \<times> bool" where
  "CustomFieldValue c n =
     (case find (\<lambda>v. cfv_Id v = n) (CustomFieldValues c) of
        Some v \<Rightarrow> (cfv_Value v, True)
      | None \<Rightarrow> ('''', False))"

text \<open>
  A call of the messaging client ends in a panic of the transport, in an error or in a
  value; the service is changed only when the call returns its value.
\<close>

definition GetContactByPhone ::
  "env \<Rightarrow> remote \<Rightarrow> string \<Rightarrow> (halt + (tm_error + Contact)) \<times> remote" where
  "GetContactByPhone e r phone = (RoundTrip (getAnswer e r phone), r)"

text \<open>
  \<open>Client.CreateContact\<close> refuses a contact that carries custom field values, before any
  request is made; otherwise the service's answer gives the new contact its id.
\<close>

definition CreateContact ::
  "env \<Rightarrow> remote \<Rightarrow> Contact \<Rightarrow> (halt + (tm_error + Contact)) \<times> remote" where
  "CreateContact e r c =
     (if length (CustomFieldValues c) > 0 then (Inr (Inl ErrCustomFields), r)
      else (case RoundTrip (postAnswer e r c) of
              Inl h \<Rightarrow> (Inl h, r)
            | Inr (Inl err) \<Rightarrow> (Inr (Inl err), r)
            | Inr (Inr newId) \<Rightarrow>
                (Inr (Inr (c\<lparr>Id := newId\<rparr>)), r\<lparr>created := created r @ [c\<lparr>Id := newId\<rparr>]\<rparr>)))"

definition SendMessageToContacts ::
  "env \<Rightarrow> remote \<Rightarrow> MessageToContacts \<Rightarrow> (halt + (tm_error + int)) \<times> remote" where
  "SendMessageToContacts e r m =
     (case RoundTrip (sendAnswer e r m) of
        Inl h \<Rightarrow> (Inl h, r)
      | Inr (Inl err) \<Rightarrow> (Inr (Inl err), r)
      | Inr (Inr msgId) \<Rightarrow> (Inr (Inr msgId), r\<lparr>scheduled := scheduled r @ [m]\<rparr>))"

definition SetCustomFieldValue ::
  "env \<Rightarrow> remote \<Rightarrow> int \<Rightarrow> int \<Rightarrow> string \<Rightarrow> (halt + tm_error option) \<times> remote" where
  "SetCustomFieldValue e r customFieldId contactId v =
     (case RoundTrip (putAnswer e r customFieldId contactId v) of
        Inl h \<Rightarrow> (Inl h, r)
      | Inr (Some err) \<Rightarrow> (Inr (Some err), r)
      | Inr None \<Rightarrow> (Inr None, r\<lparr>stored := (customFieldId, contactId, v) # stored r\<rparr>))"

section \<open>The program\<close>

definition TemplateText :: "env \<Rightarrow> config \<Rightarrow> string \<Rightarrow> Contact \<Rightarrow> string" where
  "TemplateText e c name ct =
     replaceFirstName e
       (if name = ''OLD'' then TemplateOld c
        else if name = ''RECENT'' then TemplateRecent c
        else if name = ''DIRECT'' then TemplateDirect c
        else '''')
       (FirstName ct)"

text \<open>
  \<open>bookingToNewContact\<close>: the guest name is cut after its first space; both pieces are
  read by index, and a read outside the slice panics.
\<close>

definition bookingToNewContact :: "state \<Rightarrow> Booking \<Rightarrow> halt + Contact" where
  "bookingToNewContact s b =
     (let names = strings_SplitAfterN (GuestName b) '' '' 2
      in case go_index names 0 of
           Inl h \<Rightarrow> Inl h
         | Inr n0 \<Rightarrow>
             (case go_index names 1 of
                Inl h \<Rightarrow> Inl h
              | Inr n1 \<Rightarrow>
                  Inr \<lparr>Id = 0, FirstName = n0, LastName = n1, Phone = GuestPhone b,
                       Email = GuestEmail b, CustomFieldValues = [],
                       Lists = [\<lparr>list_Id = listId s, list_Name = ''''\<rparr>]\<rparr>))"

subsection \<open>First loop: one stay per guest\<close>

text \<open>
  The update of the guest map for one booking. When the phone number is already a key,
  \<open>pair\<close> is a copy of the map's value: the assignment to \<open>pair.lastStay\<close> changes that
  copy, which is then dropped, and the map is not written.
\<close>

definition rememberStay :: "env \<Rightarrow> state \<Rightarrow> Contact \<Rightarrow> Booking \<Rightarrow> state" where
  "rememberStay e s ct booking =
     (case contacts s (GuestPhone booking) of
        Some pair \<Rightarrow>
          (let pair' = (if time_Before (DepartureAt e (lastStay pair)) (DepartureAt e booking)
                        then pair\<lparr>lastStay := booking\<rparr> else pair)
           in s)
      | None \<Rightarrow>
          s\<lparr>contacts := (contacts s)(GuestPhone booking \<mapsto> \<lparr>contact = ct, lastStay = booking\<rparr>)\<rparr>)"

text \<open>
  The phone number of a booking is put into canonical form where the library can parse it
  (a number that does not start with 0 is first given a plus sign); otherwise it stays as
  it is.
\<close>

definition normalisePhone :: "env \<Rightarrow> Booking \<Rightarrow> Booking" where
  "normalisePhone e booking =
     (let toParse = (if \<not> strings_HasPrefix (GuestPhone booking) ''0''
                     then ''+'' @ GuestPhone booking else GuestPhone booking)
      in case phoneE164 e toParse of
           Some p \<Rightarrow> booking\<lparr>GuestPhone := p\<rparr>
         | None \<Rightarrow> booking)"

text \<open>
  The body of the loop over the bookings of a property. The result is the panic that ended
  the run, if any, with the guest map and the service as they then are.
\<close>

definition aggregateBooking ::
  "env \<Rightarrow> Booking \<Rightarrow> state \<times> remote \<Rightarrow> halt option \<times> state \<times> remote" where
  "aggregateBooking e booking0 sr =
     (let s = fst sr; r = snd sr
      in if Status booking0 = ''cancelled'' then (None, s, r)
         else
           (let booking = normalisePhone e booking0
            in case GetContactByPhone e r (GuestPhone booking) of
                 (Inl h, r1) \<Rightarrow> (Some h, s, r1)
               | (Inr (Inr ct), r1) \<Rightarrow> (None, rememberStay e s ct booking, r1)
               | (Inr (Inl err), r1) \<Rightarrow>
                   if err = ErrNotFound then
                     (case bookingToNewContact s booking of
                        Inl h \<Rightarrow> (Some h, s, r1)
                      | Inr c \<Rightarrow>
                          (case CreateContact e r1 c of
                             (Inl h, r2) \<Rightarrow> (Some h, s, r2)
                           | (Inr (Inl err'), r2) \<Rightarrow> (None, s, r2)
                           | (Inr (Inr ct), r2) \<Rightarrow> (None, rememberStay e s ct booking, r2)))
                   else (None, s, r1)))"

fun aggregateBookings ::
  "env \<Rightarrow> Booking list \<Rightarrow> state \<times> remote \<Rightarrow> halt option \<times> state \<times> remote" where
  "aggregateBookings e [] sr = (None, sr)"
| "aggregateBookings e (b # bs) sr =
     (case aggregateBooking e b sr of
        (Some h, sr') \<Rightarrow> (Some h, sr')
      | (None, sr') \<Rightarrow> aggregateBookings e bs sr')"

text \<open>
  The loop over the properties; each element is what became of the requests of
  \<open>GetBookings\<close> for one property, which pass through the same transport: without a
  response the run panics; after an error the bookings are the nil slice and the loop goes
  on.
\<close>

fun aggregateProperties ::
  "env \<Rightarrow> (tm_error + Booking list) roundtrip list \<Rightarrow> state \<times> remote
     \<Rightarrow> halt option \<times> state \<times> remote" where
  "aggregateProperties e [] sr = (None, sr)"
| "aggregateProperties e (f # fs) sr =
     (case RoundTrip f of
        Inl h \<Rightarrow> (Some h, sr)
      | Inr got \<Rightarrow>
          (case aggregateBookings e (case got of Inl err \<Rightarrow> [] | Inr bs \<Rightarrow> bs) sr of
             (Some h, sr') \<Rightarrow> (Some h, sr')
           | (None, sr') \<Rightarrow> aggregateProperties e fs sr'))"

subsection \<open>Second loop: what to send to each guest\<close>

text \<open>
  Decoding the stored state of a contact: \<open>lastTemplate\<close> and \<open>lastSent\<close> start as the
  empty string and the zero time, and are set from the first two comma-separated parts of
  the field when there are at least two.
\<close>

definition decodeState :: "string \<times> bool \<Rightarrow> halt + (string \<times> go_time)" where
  "decodeState v =
     (let stateRaw = fst v; ok = snd v
      in if ok then
           (let parts = strings_Split stateRaw '',''
            in if length parts \<ge> 2 then
                 (case go_index parts 0 of
                    Inl h \<Rightarrow> Inl h
                  | Inr lastTemplate \<Rightarrow>
                      (case go_index parts 1 of
                         Inl h \<Rightarrow> Inl h
                       | Inr p1 \<Rightarrow>
                           (case strconv_Atoi p1 of
                              Some timeRaw \<Rightarrow> Inr (lastTemplate, time_Unix timeRaw)
                            | None \<Rightarrow> Inr (lastTemplate, zero_time))))
               else Inr ('''', zero_time))
         else Inr ('''', zero_time))"

text \<open>The \<open>switch\<close> on the last template; the empty string is "no template".\<close>

definition switchTemplate :: "go_time \<Rightarrow> go_time \<Rightarrow> string \<Rightarrow> go_time \<Rightarrow> string" where
  "switchTemplate now departure lastTemplate lastSent =
     (if lastTemplate = '''' then
        (if time_Sub now departure < Hour * 24 * 30 then ''RECENT'' else ''OLD'')
      else if lastTemplate = ''OLD'' then
        (if time_After departure lastSent then ''RECENT'' else '''')
      else if lastTemplate = ''RECENT'' then
        (if time_Sub departure lastSent > Hour * 24 * 180 then ''RECENT'' else '''')
      else '''')"

text \<open>A guest who booked directly gets the template kept for them.\<close>

definition directOverride :: "string \<Rightarrow> string \<Rightarrow> string" where
  "directOverride template channel =
     (if template \<noteq> '''' \<and> channel = ''uplisting'' then ''DIRECT'' else template)"

text \<open>
  The template chosen for one guest: the value of \<open>template\<close> where the loop body tests
  it before sending. The body leaves by \<open>continue\<close> for a departure after \<open>now\<close>
  before any template is set, which is no template as well.
\<close>

definition chooseTemplate :: "env \<Rightarrow> state \<Rightarrow> go_time \<Rightarrow> contactBookingPair \<Rightarrow> halt + string" where
  "chooseTemplate e s now pair =
     (if time_After (DepartureAt e (lastStay pair)) now then Inr ''''
      else (case decodeState (CustomFieldValue (contact pair) (cf_Id (stateField s))) of
              Inl h \<Rightarrow> Inl h
            | Inr st \<Rightarrow>
                Inr (directOverride
                       (switchTemplate now (DepartureAt e (lastStay pair)) (fst st) (snd st))
                       (Channel (lastStay pair)))))"

text \<open>
  What the loop body prepares before it sends: the new value of the state field, the time
  of sending (19:00 today, or tomorrow when that has passed) and the message.
\<close>

definition newStateRaw :: "string \<Rightarrow> go_time \<Rightarrow> string" where
  "newStateRaw template now = template @ '','' @ strconv_Itoa (unix_seconds now)"

definition sendAt :: "env \<Rightarrow> go_time \<Rightarrow> go_time" where
  "sendAt e now =
     (if time_Before (todayAt19 e now) now then todayAt19 e now + Hour * 24 else todayAt19 e now)"

definition message :: "env \<Rightarrow> config \<Rightarrow> go_time \<Rightarrow> Contact \<Rightarrow> string \<Rightarrow> MessageToContacts" where
  "message e cfg now ct template =
     \<lparr>Text = TemplateText e cfg template ct, Contacts = [ct], SendAt = sendAt e now\<rparr>"

text \<open>
  The body of the loop over the guests: nothing happens without a template; a send that
  returns an error is logged; an update of the state field that returns an error after a
  send ends the run with status 1; a panic of the transport in either call ends the run.
\<close>

definition processGuest ::
  "env \<Rightarrow> config \<Rightarrow> state \<Rightarrow> go_time \<Rightarrow> contactBookingPair \<Rightarrow> remote \<Rightarrow> halt option \<times> remote" where
  "processGuest e cfg s now pair r =
     (case chooseTemplate e s now pair of
        Inl h \<Rightarrow> (Some h, r)
      | Inr template \<Rightarrow>
          if template = '''' then (None, r)
          else (case SendMessageToContacts e r (message e cfg now (contact pair) template) of
                  (Inl h, r1) \<Rightarrow> (Some h, r1)
                | (Inr (Inl err), r1) \<Rightarrow> (None, r1)
                | (Inr (Inr msgId), r1) \<Rightarrow>
                    (case SetCustomFieldValue e r1 (cf_Id (stateField s)) (Id (contact pair))
                            (newStateRaw template now) of
                       (Inl h, r2) \<Rightarrow> (Some h, r2)
                     | (Inr (Some err), r2) \<Rightarrow> (Some (OsExit 1), r2)
                     | (Inr None, r2) \<Rightarrow> (None, r2))))"

text \<open>
  The loop over the guest map, whose order of iteration is not fixed: the guests are given
  as a list in the order in which the run happens to visit them.
\<close>

fun sendTexts ::
  "env \<Rightarrow> config \<Rightarrow> state \<Rightarrow> go_time \<Rightarrow> contactBookingPair list \<Rightarrow> remote \<Rightarrow> halt option \<times> remote" where
  "sendTexts e cfg s now [] r = (None, r)"
| "sendTexts e cfg s now (pair # pairs) r =
     (case processGuest e cfg s now pair r of
        (Some h, r') \<Rightarrow> (Some h, r')
      | (None, r') \<Rightarrow> sendTexts e cfg s now pairs r')"

text \<open>
  The two loops in sequence, from the point where \<open>main\<close> has found the state field and
  the list: \<open>fetched\<close> is what became of \<open>GetBookings\<close> for each property and \<open>order\<close>
  the phone numbers in the order in which the second loop visits the guest map.
\<close>

definition run ::
  "env \<Rightarrow> config \<Rightarrow> state \<Rightarrow> go_time \<Rightarrow> (tm_error + Booking list) roundtrip list \<Rightarrow> string list
     \<Rightarrow> remote \<Rightarrow> halt option \<times> remote" where
  "run e cfg s0 now fetched order r0 =
     (case aggregateProperties e fetched (s0, r0) of
        (Some h, s, r) \<Rightarrow> (Some h, r)
      | (None, s, r) \<Rightarrow> sendTexts e cfg s now (List.map_filter (contacts s) order) r)"

section \<open>The specification's wording of the name split\<close>

text \<open>
  The specification derives the names of a new contact by "splitting the booking's
  guest-name on the first whitespace boundary (first token = first name, remainder = last
  name)". Read literally: the first name is the name up to its first whitespace character,
  the last name what follows it.
\<close>

definition is_whitespace :: "char \<Rightarrow> bool" where
  "is_whitespace c = ((of_char c :: nat) \<in> {9, 10, 11, 12, 13, 32})"

definition spec_firstName :: "string \<Rightarrow> string" where
  "spec_firstName name = takeWhile (\<lambda>c. \<not> is_whitespace c) name"

section \<open>An environment for worked examples\<close>

text \<open>
  A parser for the one layout the program uses: it accepts the 19-character form
  \<open>YYYY-MM-DD hh:mm:ss\<close> with every field in range and reads it as UTC.
\<close>

definition num_field :: "string \<Rightarrow> int" where
  "num_field ds = (if ds \<noteq> [] \<and> list_all is_digit ds then digits_value 0 ds else - 1)"

definition is_leap :: "int \<Rightarrow> bool" where
  "is_leap y = (y mod 4 = 0 \<and> (y mod 100 \<noteq> 0 \<or> y mod 400 = 0))"

definition days_in :: "int \<Rightarrow> int \<Rightarrow> int" where
  "days_in y m =
     (if m = 2 then (if is_leap y then 29 else 28)
      else if m = 4 \<or> m = 6 \<or> m = 9 \<or> m = 11 then 30 else 31)"

text \<open>Days from 1970-01-01 to the given day of the proleptic Gregorian calendar.\<close>

definition days_from_civil :: "int \<Rightarrow> int \<Rightarrow> int \<Rightarrow> int" where
  "days_from_civil y m d =
     (let y' = (if m \<le> 2 then y - 1 else y);
          era = y' div 400;
          yoe = y' - era * 400;
          doy = (153 * (if m > 2 then m - 3 else m + 9) + 2) div 5 + d - 1;
          doe = yoe * 365 + yoe div 4 - yoe div 100 + doy
      in era * 146097 + doe - 719468)"

definition parseDateTime :: "string \<Rightarrow> string \<Rightarrow> go_time option" where
  "parseDateTime layout v =
     (if layout = ''2006-01-02 15:04:05'' \<and> length v = 19 \<and> v ! 4 = CHR ''-'' \<and>
         v ! 7 = CHR ''-'' \<and> v ! 10 = CHR '' '' \<and> v ! 13 = CHR '':'' \<and> v ! 16 = CHR '':''
      then
        (let y = num_field (take 4 v); mo = num_field (take 2 (drop 5 v));
             d = num_field (take 2 (drop 8 v)); h = num_field (take 2 (drop 11 v));
             mi = num_field (take 2 (drop 14 v)); sec = num_field (take 2 (drop 17 v))
         in if 0 \<le> y \<and> 1 \<le> mo \<and> mo \<le> 12 \<and> 1 \<le> d \<and> d \<le> days_in y mo \<and>
               0 \<le> h \<and> h < 24 \<and> 0 \<le> mi \<and> mi < 60 \<and> 0 \<le> sec \<and> sec < 60
            then Some ((days_from_civil y mo d * 86400 + h * 3600 + mi * 60 + sec) * 1000000000)
            else None)
      else None)"

text \<open>
  A service that knows the contacts it has created, numbers contacts and messages as they
  come, and accepts every request; phone numbers that are a plus sign and digits are
  already in canonical form, others fail to parse; the local time zone is UTC.
\<close>

definition exampleEnv :: env where
  "exampleEnv =
     \<lparr>timeParse = parseDateTime,
      phoneE164 = (\<lambda>p. if p \<noteq> [] \<and> hd p = CHR ''+'' \<and> tl p \<noteq> [] \<and> list_all is_digit (tl p)
                        then Some p else None),
      replaceFirstName = (\<lambda>t first. t),
      todayAt19 = (\<lambda>now. now - now mod (Hour * 24) + Hour * 19),
      getAnswer = (\<lambda>r phone. case find (\<lambda>c. Phone c = phone) (created r) of
                                 Some c \<Rightarrow> Response (Inr c) | None \<Rightarrow> Response (Inl ErrNotFound)),
      postAnswer = (\<lambda>r c. Response (Inr (int (length (created r)) + 1))),
      sendAnswer = (\<lambda>r m. Response (Inr (int (length (scheduled r)) + 1))),
      putAnswer = (\<lambda>r f c v. Response None)\<rparr>"

definition exampleState :: state where
  "exampleState =
     \<lparr>stateField = \<lparr>cf_Id = 7, cf_Name = ''guest-state''\<rparr>, listId = 3, contacts = Map.empty\<rparr>"

definition exampleConfig :: config where
  "exampleConfig =
     \<lparr>TemplateOld = ''It has been a while'', TemplateRecent = ''Thank you for staying'',
      TemplateDirect = ''Thank you for booking with us''\<rparr>"

definition exampleRemote :: remote where
  "exampleRemote = \<lparr>created = [], scheduled = [], stored = []\<rparr>"

text \<open>\<open>exampleNow\<close> is 2026-11-03 12:00:00 UTC.\<close>

definition exampleNow :: go_time where
  "exampleNow = 1793707200 * 1000000000"

definition exampleBooking :: "string \<Rightarrow> string \<Rightarrow> string \<Rightarrow> Booking" where
  "exampleBooking name phone out =
     \<lparr>CheckOut = out, DepartureTime = ''10:00:00'', GuestName = name,
      GuestEmail = ''guest@example.org'', GuestPhone = phone, Status = ''checked_out'',
      Channel = ''airbnb''\<rparr>"

definition exampleContact :: "CustomFieldValue list \<Rightarrow> Contact" where
  "exampleContact vs =
     \<lparr>Id = 41, FirstName = ''Ada '', LastName = ''Lovelace'', Phone = ''+447700900123'',
      Email = ''guest@example.org'', CustomFieldValues = vs, Lists = []\<rparr>"

definition examplePair :: "CustomFieldValue list \<Rightarrow> string \<Rightarrow> contactBookingPair" where
  "examplePair vs out =
     \<lparr>contact = exampleContact vs,
      lastStay = exampleBooking ''Ada Lovelace'' ''+447700900123'' out\<rparr>"

text \<open>
  The same service when it refuses every message, when it refuses every field update, and
  when it cannot be reached for sending a message.
\<close>

definition sendFailsEnv :: env where
  "sendFailsEnv =
     exampleEnv\<lparr>sendAnswer := (\<lambda>r m. Response (Inl (ErrResponse ''message refused'')))\<rparr>"

definition storeFailsEnv :: env where
  "storeFailsEnv =
     exampleEnv\<lparr>putAnswer := (\<lambda>r f c v. Response (Some (ErrResponse ''update refused'')))\<rparr>"

definition sendUnreachableEnv :: env where
  "sendUnreachableEnv = exampleEnv\<lparr>sendAnswer := (\<lambda>r m. NoResponse)\<rparr>"

section \<open>Evaluation rules\<close>

lemmas time_defs = time_After_def time_Before_def time_Sub_def maxDuration_def minDuration_def
  Hour_def zero_time_def

lemmas parse_eval = parseDateTime_def num_field_def is_digit_def days_in_def is_leap_def
  days_from_civil_def Let_def

lemmas split_eval = strings_Split_def strings_SplitAfterN_def genSplit_def strings_Count.simps
  go_index_def

lemma example_departure:
  "DepartureAt exampleEnv (exampleBooking n p ''2026-12-01'') = 1796119200000000000"
  "DepartureAt exampleEnv (exampleBooking n p ''2026-10-24'') = 1792836000000000000"
  "DepartureAt exampleEnv (exampleBooking n p ''2026-10-01'') = 1790848800000000000"
  "DepartureAt exampleEnv (exampleBooking n p ''2026-09-01'') = 1788256800000000000"
  by (simp_all add: DepartureAt_def exampleEnv_def exampleBooking_def parse_eval)

lemma example_channel: "Channel (exampleBooking n p out) = ''airbnb''"
  by (simp add: exampleBooking_def)

lemma example_decode:
  "decodeState ('''', False) = Inr ('''', zero_time)"
  "decodeState (''RECENT,1700000000'', True) = Inr (''RECENT'', 1700000000000000000)"
  "decodeState (''FOO,1700000000'', True) = Inr (''FOO'', 1700000000000000000)"
  by (simp_all add: decodeState_def split_eval strconv_Atoi_def is_digit_def time_Unix_def
      wrap64_def unixToInternal_def)

section \<open>The cadence rules\<close>

text \<open>
  C3. For every guest whose last stay departs after \<open>now\<close>, no template is chosen, whatever
  the contact's stored state is, and the loop body sends nothing and stores nothing.
\<close>

theorem future_departure_no_template:
  "time_After (DepartureAt e (lastStay pair)) now \<Longrightarrow>
     chooseTemplate e s now pair = Inr '''' \<and> processGuest e cfg s now pair r = (None, r)"
  by (simp add: chooseTemplate_def processGuest_def)

theorem future_departure_no_template_witness:
  "time_After
     (DepartureAt exampleEnv
        (lastStay (examplePair [\<lparr>cfv_Value = ''RECENT,1700000000'', cfv_Id = 7\<rparr>] ''2026-12-01'')))
     exampleNow \<and>
   chooseTemplate exampleEnv exampleState exampleNow
     (examplePair [\<lparr>cfv_Value = ''RECENT,1700000000'', cfv_Id = 7\<rparr>] ''2026-12-01'') = Inr '''' \<and>
   processGuest exampleEnv exampleConfig exampleState exampleNow
     (examplePair [\<lparr>cfv_Value = ''RECENT,1700000000'', cfv_Id = 7\<rparr>] ''2026-12-01'') exampleRemote
     = (None, exampleRemote)"
proof -
  have h: "time_After
     (DepartureAt exampleEnv
        (lastStay (examplePair [\<lparr>cfv_Value = ''RECENT,1700000000'', cfv_Id = 7\<rparr>] ''2026-12-01'')))
     exampleNow"
    by (simp add: examplePair_def example_departure exampleNow_def time_After_def)
  from future_departure_no_template [OF h] h show ?thesis by simp
qed

text \<open>
  C4. For every guest whose decoded last template is empty and whose last stay did not
  depart after \<open>now\<close>: the \<open>switch\<close> gives RECENT when \<open>now\<close> minus the departure is less
  than 30 days and OLD otherwise, and the chosen template is that value after the override
  for direct bookings.
\<close>

theorem never_messaged_recent_or_old:
  assumes "decodeState (CustomFieldValue (contact pair) (cf_Id (stateField s))) = Inr ('''', lastSent)"
    and "\<not> time_After (DepartureAt e (lastStay pair)) now"
  shows "switchTemplate now (DepartureAt e (lastStay pair)) '''' lastSent =
           (if now - DepartureAt e (lastStay pair) < Hour * 24 * 30 then ''RECENT'' else ''OLD'') \<and>
         chooseTemplate e s now pair =
           Inr (directOverride
                  (if now - DepartureAt e (lastStay pair) < Hour * 24 * 30 then ''RECENT'' else ''OLD'')
                  (Channel (lastStay pair)))"
proof -
  have sw: "switchTemplate now (DepartureAt e (lastStay pair)) '''' lastSent =
           (if now - DepartureAt e (lastStay pair) < Hour * 24 * 30 then ''RECENT'' else ''OLD'')"
    using assms(2) by (simp add: switchTemplate_def time_defs Let_def)
  from assms sw show ?thesis
    by (simp add: chooseTemplate_def)
qed

theorem never_messaged_recent_or_old_witness:
  "decodeState (CustomFieldValue (contact (examplePair [] ''2026-10-24'')) (cf_Id (stateField exampleState)))
     = Inr ('''', zero_time) \<and>
   \<not> time_After (DepartureAt exampleEnv (lastStay (examplePair [] ''2026-10-24''))) exampleNow \<and>
   switchTemplate exampleNow (DepartureAt exampleEnv (lastStay (examplePair [] ''2026-10-24''))) ''''
     zero_time = ''RECENT'' \<and>
   chooseTemplate exampleEnv exampleState exampleNow (examplePair [] ''2026-10-24'') = Inr ''RECENT''"
proof -
  have h1: "decodeState (CustomFieldValue (contact (examplePair [] ''2026-10-24''))
              (cf_Id (stateField exampleState))) = Inr ('''', zero_time)"
    by (simp add: examplePair_def exampleContact_def CustomFieldValue_def example_decode)
  have h2: "\<not> time_After (DepartureAt exampleEnv (lastStay (examplePair [] ''2026-10-24''))) exampleNow"
    by (simp add: examplePair_def example_departure exampleNow_def time_After_def)
  from never_messaged_recent_or_old [OF h1 h2] h1 h2 show ?thesis
    by (simp add: examplePair_def example_departure example_channel exampleNow_def Hour_def
        directOverride_def)
qed

text \<open>
  C5. For every guest whose decoded last template is RECENT and whose last stay did not
  depart after \<open>now\<close>: the \<open>switch\<close> gives RECENT again when the departure minus the time
  of the last message is more than 180 days, and no template otherwise; the chosen template
  is that value after the override for direct bookings.
\<close>

theorem recent_again_after_180_days:
  assumes "decodeState (CustomFieldValue (contact pair) (cf_Id (stateField s))) = Inr (''RECENT'', lastSent)"
    and "\<not> time_After (DepartureAt e (lastStay pair)) now"
  shows "switchTemplate now (DepartureAt e (lastStay pair)) ''RECENT'' lastSent =
           (if DepartureAt e (lastStay pair) - lastSent > Hour * 24 * 180 then ''RECENT'' else '''') \<and>
         chooseTemplate e s now pair =
           Inr (directOverride
                  (if DepartureAt e (lastStay pair) - lastSent > Hour * 24 * 180 then ''RECENT'' else '''')
                  (Channel (lastStay pair)))"
proof -
  have sw: "switchTemplate now (DepartureAt e (lastStay pair)) ''RECENT'' lastSent =
           (if DepartureAt e (lastStay pair) - lastSent > Hour * 24 * 180 then ''RECENT'' else '''')"
    by (simp add: switchTemplate_def time_defs Let_def)
  from assms sw show ?thesis
    by (simp add: chooseTemplate_def)
qed

theorem recent_again_after_180_days_witness:
  "decodeState (CustomFieldValue
       (contact (examplePair [\<lparr>cfv_Value = ''RECENT,1700000000'', cfv_Id = 7\<rparr>] ''2026-10-24''))
       (cf_Id (stateField exampleState))) = Inr (''RECENT'', 1700000000000000000) \<and>
   \<not> time_After
       (DepartureAt exampleEnv
          (lastStay (examplePair [\<lparr>cfv_Value = ''RECENT,1700000000'', cfv_Id = 7\<rparr>] ''2026-10-24'')))
       exampleNow \<and>
   chooseTemplate exampleEnv exampleState exampleNow
     (examplePair [\<lparr>cfv_Value = ''RECENT,1700000000'', cfv_Id = 7\<rparr>] ''2026-10-24'') = Inr ''RECENT''"
proof -
  have h1: "decodeState (CustomFieldValue
       (contact (examplePair [\<lparr>cfv_Value = ''RECENT,1700000000'', cfv_Id = 7\<rparr>] ''2026-10-24''))
       (cf_Id (stateField exampleState))) = Inr (''RECENT'', 1700000000000000000)"
    by (simp add: examplePair_def exampleContact_def exampleState_def CustomFieldValue_def
        example_decode)
  have h2: "\<not> time_After
       (DepartureAt exampleEnv
          (lastStay (examplePair [\<lparr>cfv_Value = ''RECENT,1700000000'', cfv_Id = 7\<rparr>] ''2026-10-24'')))
       exampleNow"
    by (simp add: examplePair_def example_departure exampleNow_def time_After_def)
  from recent_again_after_180_days [OF h1 h2] h1 h2 show ?thesis
    by (simp add: examplePair_def example_departure example_channel Hour_def directOverride_def)
qed

text \<open>
  C6. The override for direct bookings maps no template to no template and any template on
  a stay booked through the channel \<open>uplisting\<close> to DIRECT; it gives a template only where
  there was one.
\<close>

theorem override_keeps_none:
  "directOverride '''' channel = '''' \<and>
   (template \<noteq> '''' \<longrightarrow> directOverride template ''uplisting'' = ''DIRECT'') \<and>
   (directOverride template channel \<noteq> '''' \<longrightarrow> template \<noteq> '''')"
  by (simp add: directOverride_def)

theorem override_keeps_none_witness:
  "directOverride '''' ''uplisting'' = '''' \<and> ''OLD'' \<noteq> '''' \<and>
   directOverride ''OLD'' ''uplisting'' = ''DIRECT'' \<and>
   directOverride ''OLD'' ''uplisting'' \<noteq> ''''"
  using override_keeps_none [of "''uplisting''" "''OLD''"] by simp

section \<open>Splitting on a one-byte separator\<close>

lemma Index_absent: "c \<notin> set s \<Longrightarrow> strings_Index s [c] = None"
  by (induction s) auto

lemma Index_first: "c \<notin> set a \<Longrightarrow> strings_Index (a @ c # b) [c] = Some (length a)"
  by (induction a) auto

lemma Count_absent: "c \<notin> set s \<Longrightarrow> strings_Count s [c] = 0"
  by (simp add: strings_Count.simps [of s] Index_absent)

lemma Count_first: "c \<notin> set a \<Longrightarrow> strings_Count (a @ c # b) [c] = Suc (strings_Count b [c])"
  by (simp add: strings_Count.simps [of "a @ c # b"] Index_first)

lemma Split_absent: "c \<notin> set s \<Longrightarrow> strings_Split s [c] = [s]"
  by (simp add: strings_Split_def genSplit_def Count_absent)

lemma genSplit_loop_nonempty: "genSplit_loop s sep sepSave k \<noteq> []"
  by (cases k) (auto split: option.splits)

lemma Split_first:
  "c \<notin> set a \<Longrightarrow> strings_Split (a @ c # b) [c] = a # genSplit_loop b [c] 0 (strings_Count b [c])"
  by (simp add: strings_Split_def genSplit_def Count_first Index_first)

lemma Split_first_parts:
  assumes "c \<notin> set a"
  shows "length (strings_Split (a @ c # b) [c]) \<ge> 2"
    and "strings_Split (a @ c # b) [c] ! 0 = a"
    and "strings_Split (a @ c # b) [c] ! 1 = hd (strings_Split b [c])"
proof -
  obtain x xs where loop: "genSplit_loop b [c] 0 (strings_Count b [c]) = x # xs"
    using genSplit_loop_nonempty [of b "[c]" 0 "strings_Count b [c]"]
    by (cases "genSplit_loop b [c] 0 (strings_Count b [c])") auto
  have split: "strings_Split (a @ c # b) [c] = a # x # xs"
    using assms loop by (simp add: Split_first)
  show "length (strings_Split (a @ c # b) [c]) \<ge> 2" by (simp add: split)
  show "strings_Split (a @ c # b) [c] ! 0 = a" by (simp add: split)
  have "strings_Split b [c] = x # xs"
    using loop by (simp add: strings_Split_def genSplit_def)
  then show "strings_Split (a @ c # b) [c] ! 1 = hd (strings_Split b [c])"
    by (simp add: split)
qed

lemma SplitAfterN_absent: "c \<notin> set s \<Longrightarrow> strings_SplitAfterN s [c] 2 = [s]"
  by (cases s) (simp_all add: strings_SplitAfterN_def genSplit_def Index_absent
      numeral_2_eq_2)

lemma SplitAfterN_first: "c \<notin> set a \<Longrightarrow> strings_SplitAfterN (a @ c # b) [c] 2 = [a @ [c], b]"
  by (simp add: strings_SplitAfterN_def genSplit_def Index_first numeral_2_eq_2)

section \<open>New contacts\<close>

text \<open>
  C9. Every booking that is not cancelled and whose guest name has no space character (so
  in particular some booking) makes \<open>bookingToNewContact\<close> read index 1 of a slice of
  length 1 and panic instead of returning a contact; when the service answers that it does
  not know the phone number, so that the contact has to be created, the panic ends the run.
\<close>

theorem name_without_space_panics:
  assumes "Status b \<noteq> ''cancelled''" and "CHR '' '' \<notin> set (GuestName b)"
  shows "length (strings_SplitAfterN (GuestName b) '' '' 2) = 1 \<and>
         bookingToNewContact s b = Inl (IndexOutOfRange 1 1) \<and>
         (getAnswer e r (GuestPhone (normalisePhone e b)) = Response (Inl ErrNotFound) \<longrightarrow>
            aggregateBooking e b (s, r) = (Some (IndexOutOfRange 1 1), s, r) \<and>
            run e cfg s now (Response (Inr (b # bs)) # fetched) order r =
              (Some (IndexOutOfRange 1 1), r))"
proof -
  have names: "strings_SplitAfterN (GuestName b) '' '' 2 = [GuestName b]"
    using assms(2) by (rule SplitAfterN_absent)
  have panic: "bookingToNewContact s' b' = Inl (IndexOutOfRange 1 1)"
    if "GuestName b' = GuestName b" for s' b'
    using that names by (simp add: bookingToNewContact_def go_index_def)
  have name: "GuestName (normalisePhone e b) = GuestName b"
    by (simp add: normalisePhone_def Let_def split: option.splits)
  have step: "aggregateBooking e b (s, r) = (Some (IndexOutOfRange 1 1), s, r)"
    if "getAnswer e r (GuestPhone (normalisePhone e b)) = Response (Inl ErrNotFound)"
    using that assms(1) panic [OF name]
    by (simp add: aggregateBooking_def GetContactByPhone_def RoundTrip_def Let_def)
  from names panic [of b s] step show ?thesis
    by (simp add: run_def RoundTrip_def)
qed

theorem name_without_space_panics_witness:
  "Status (exampleBooking ''Madonna'' ''447700900123'' ''2026-10-24'') \<noteq> ''cancelled'' \<and>
   CHR '' '' \<notin> set (GuestName (exampleBooking ''Madonna'' ''447700900123'' ''2026-10-24'')) \<and>
   getAnswer exampleEnv exampleRemote
     (GuestPhone (normalisePhone exampleEnv (exampleBooking ''Madonna'' ''447700900123'' ''2026-10-24'')))
     = Response (Inl ErrNotFound) \<and>
   bookingToNewContact exampleState (exampleBooking ''Madonna'' ''447700900123'' ''2026-10-24'')
     = Inl (IndexOutOfRange 1 1) \<and>
   run exampleEnv exampleConfig exampleState exampleNow
     [Response (Inr [exampleBooking ''Madonna'' ''447700900123'' ''2026-10-24''])] [] exampleRemote
     = (Some (IndexOutOfRange 1 1), exampleRemote)"
proof -
  have h1: "Status (exampleBooking ''Madonna'' ''447700900123'' ''2026-10-24'') \<noteq> ''cancelled''"
    by (simp add: exampleBooking_def)
  have h2: "CHR '' '' \<notin> set (GuestName (exampleBooking ''Madonna'' ''447700900123'' ''2026-10-24''))"
    by (simp add: exampleBooking_def)
  have h3: "getAnswer exampleEnv exampleRemote
     (GuestPhone (normalisePhone exampleEnv (exampleBooking ''Madonna'' ''447700900123'' ''2026-10-24'')))
     = Response (Inl ErrNotFound)"
    by (simp add: exampleEnv_def exampleRemote_def)
  from name_without_space_panics [OF h1 h2, of exampleState exampleEnv exampleRemote
      exampleConfig exampleNow "[]" "[]" "[]"] h1 h2 h3
  show ?thesis by simp
qed

text \<open>
  C7, as the code has it. For every booking whose guest name is \<open>first\<close>, a space and
  \<open>rest\<close>, with no space in \<open>first\<close>, the new contact's first name is \<open>first\<close> with
  that space still at its end and the last name is \<open>rest\<close>: the name is cut after its first
  space character, and the two names together are the guest name again.
\<close>

theorem name_cut_after_first_space:
  assumes "GuestName b = first @ '' '' @ rest" and "CHR '' '' \<notin> set first"
  shows "bookingToNewContact s b =
           Inr \<lparr>Id = 0, FirstName = first @ '' '', LastName = rest, Phone = GuestPhone b,
                Email = GuestEmail b, CustomFieldValues = [],
                Lists = [\<lparr>list_Id = listId s, list_Name = ''''\<rparr>]\<rparr>"
proof -
  have "strings_SplitAfterN (GuestName b) '' '' 2 = [first @ '' '', rest]"
    using assms SplitAfterN_first [of "CHR '' ''" first rest] by simp
  then show ?thesis
    by (simp add: bookingToNewContact_def go_index_def)
qed

theorem name_cut_after_first_space_witness:
  "GuestName (exampleBooking ''Ada Lovelace'' ''447700900123'' ''2026-10-24'') = ''Ada'' @ '' '' @ ''Lovelace'' \<and>
   CHR '' '' \<notin> set ''Ada'' \<and>
   bookingToNewContact exampleState (exampleBooking ''Ada Lovelace'' ''447700900123'' ''2026-10-24'') =
     Inr \<lparr>Id = 0, FirstName = ''Ada '', LastName = ''Lovelace'', Phone = ''447700900123'',
          Email = ''guest@example.org'', CustomFieldValues = [],
          Lists = [\<lparr>list_Id = 3, list_Name = ''''\<rparr>]\<rparr>"
proof -
  have h1: "GuestName (exampleBooking ''Ada Lovelace'' ''447700900123'' ''2026-10-24'')
              = ''Ada'' @ '' '' @ ''Lovelace''"
    by (simp add: exampleBooking_def)
  have h2: "CHR '' '' \<notin> set ''Ada''" by simp
  from name_cut_after_first_space [OF h1 h2, of exampleState] h1 h2 show ?thesis
    by (simp add: exampleBooking_def exampleState_def)
qed

text \<open>
  C7, as the specification words it, fails: for the guest name "Ada Lovelace" the first
  whitespace-separated token is "Ada", and the new contact's first name is "Ada " with the
  space.
\<close>

theorem first_name_is_not_first_token:
  "map_sum id FirstName
     (bookingToNewContact exampleState (exampleBooking ''Ada Lovelace'' ''447700900123'' ''2026-10-24''))
     = Inr ''Ada '' \<and>
   spec_firstName (GuestName (exampleBooking ''Ada Lovelace'' ''447700900123'' ''2026-10-24'')) = ''Ada'' \<and>
   map_sum id FirstName
     (bookingToNewContact exampleState (exampleBooking ''Ada Lovelace'' ''447700900123'' ''2026-10-24''))
     \<noteq> Inr (spec_firstName (GuestName (exampleBooking ''Ada Lovelace'' ''447700900123'' ''2026-10-24'')))"
  by (simp add: bookingToNewContact_def exampleBooking_def split_eval spec_firstName_def
      is_whitespace_def)

section \<open>Bookings whose departure does not parse\<close>

text \<open>
  C10. For every booking whose check-out date and departure time do not parse together,
  \<open>DepartureAt\<close> is the zero time. With \<open>now\<close> a clock reading not before 1970, such a stay
  is never after \<open>now\<close>, and for a guest whose decoded last template is empty the
  \<open>switch\<close> gives OLD.
\<close>

theorem unparsed_departure_is_old:
  assumes "timeParse e ''2006-01-02 15:04:05'' (CheckOut (lastStay pair) @ '' '' @ DepartureTime (lastStay pair)) = None"
    and "0 \<le> now"
  shows "DepartureAt e (lastStay pair) = zero_time \<and>
         \<not> time_After (DepartureAt e (lastStay pair)) now \<and>
         (decodeState (CustomFieldValue (contact pair) (cf_Id (stateField s))) = Inr ('''', lastSent) \<longrightarrow>
            switchTemplate now (DepartureAt e (lastStay pair)) '''' lastSent = ''OLD'' \<and>
            chooseTemplate e s now pair = Inr (directOverride ''OLD'' (Channel (lastStay pair))))"
proof -
  have dep: "DepartureAt e (lastStay pair) = zero_time"
    using assms(1) by (simp add: DepartureAt_def)
  have notafter: "\<not> time_After zero_time now"
    using assms(2) by (simp add: time_defs)
  have sw: "switchTemplate now zero_time '''' lastSent = ''OLD''"
    using assms(2) by (simp add: switchTemplate_def time_defs Let_def)
  from dep notafter sw show ?thesis
    by (simp add: chooseTemplate_def)
qed

theorem unparsed_departure_is_old_witness:
  "timeParse exampleEnv ''2006-01-02 15:04:05''
     (CheckOut (lastStay (examplePair [] '''')) @ '' '' @ DepartureTime (lastStay (examplePair [] ''''))) = None \<and>
   0 \<le> exampleNow \<and>
   decodeState (CustomFieldValue (contact (examplePair [] '''')) (cf_Id (stateField exampleState)))
     = Inr ('''', zero_time) \<and>
   DepartureAt exampleEnv (lastStay (examplePair [] '''')) = zero_time \<and>
   chooseTemplate exampleEnv exampleState exampleNow (examplePair [] '''') = Inr ''OLD''"
proof -
  have h1: "timeParse exampleEnv ''2006-01-02 15:04:05''
     (CheckOut (lastStay (examplePair [] '''')) @ '' '' @ DepartureTime (lastStay (examplePair [] ''''))) = None"
    by (simp add: examplePair_def exampleBooking_def exampleEnv_def parseDateTime_def)
  have h2: "0 \<le> exampleNow" by (simp add: exampleNow_def)
  have h3: "decodeState (CustomFieldValue (contact (examplePair [] '''')) (cf_Id (stateField exampleState)))
     = Inr ('''', zero_time)"
    by (simp add: examplePair_def exampleContact_def CustomFieldValue_def example_decode)
  from unparsed_departure_is_old [OF h1 h2, of exampleState zero_time] h1 h2 h3 show ?thesis
    by (simp add: examplePair_def example_channel directOverride_def)
qed

section \<open>Decoding the stored state\<close>

lemma decodeState_total: "\<exists>st. decodeState v = Inr st"
  by (cases "strconv_Atoi (strings_Split (fst v) '','' ! 1)")
    (simp_all add: decodeState_def go_index_def Let_def)

lemma decodeState_no_comma:
  "CHR '','' \<notin> set raw \<Longrightarrow> decodeState (raw, ok) = Inr ('''', zero_time)"
  by (simp add: decodeState_def Split_absent Let_def)

lemma hd_Split: "hd (strings_Split s [c]) = takeWhile (\<lambda>x. x \<noteq> c) s"
proof (cases "c \<in> set s")
  case True
  then obtain a b where s: "s = a @ c # b" and a: "c \<notin> set a"
    by (auto dest: split_list_first)
  from a have "takeWhile (\<lambda>x. x \<noteq> c) (a @ c # b) = a"
    by (induction a) auto
  with s a show ?thesis by (simp add: Split_first)
next
  case False
  then have tw: "takeWhile (\<lambda>x. x \<noteq> c) s = s"
    by (induction s) auto
  show ?thesis
    by (simp only: Split_absent [OF False] tw list.sel)
qed

lemma decodeState_tagged:
  assumes "CHR '','' \<notin> set tag"
  shows "decodeState (tag @ '','' @ rest, True) =
           Inr (tag, case strconv_Atoi (takeWhile (\<lambda>x. x \<noteq> CHR '','') rest) of
                       Some timeRaw \<Rightarrow> time_Unix timeRaw
                     | None \<Rightarrow> zero_time)"
proof -
  have parts: "length (strings_Split (tag @ '','' @ rest) '','') \<ge> 2"
    "strings_Split (tag @ '','' @ rest) '','' ! 0 = tag"
    "strings_Split (tag @ '','' @ rest) '','' ! 1 = takeWhile (\<lambda>x. x \<noteq> CHR '','') rest"
    using Split_first_parts [OF assms, of rest] by (simp_all add: hd_Split)
  from parts(1) have "1 < length (strings_Split (tag @ '','' @ rest) '','')"
    by linarith
  moreover from parts(1) have "0 < length (strings_Split (tag @ '','' @ rest) '','')"
    by linarith
  ultimately show ?thesis
    using parts
    by (simp add: decodeState_def go_index_def Let_def split: option.splits)
qed

lemma switchTemplate_unknown:
  "tag \<noteq> '''' \<Longrightarrow> tag \<noteq> ''OLD'' \<Longrightarrow> tag \<noteq> ''RECENT'' \<Longrightarrow>
     switchTemplate now departure tag sent = ''''"
  by (simp add: switchTemplate_def)

text \<open>
  C1, as the code has it. Decoding never panics, so a template (or none) is always chosen.
  A stored value without a comma is decoded as the empty last template and the zero time,
  which is the never-messaged case. For a stored value \<open>tag\<close>, comma, \<open>rest\<close> with no
  comma in \<open>tag\<close>, the last template is \<open>tag\<close>; a timestamp (the text of \<open>rest\<close> up to
  its first comma) that does not parse leaves the last-sent time at the zero time; and a
  \<open>tag\<close> other than the empty string, OLD and RECENT gives no template.
\<close>

theorem malformed_state_decision:
  assumes "CustomFieldValue (contact pair) (cf_Id (stateField s)) = (raw, True)"
  shows "(\<exists>t. chooseTemplate e s now pair = Inr t) \<and>
         (CHR '','' \<notin> set raw \<longrightarrow>
            decodeState (raw, True) = Inr ('''', zero_time) \<and>
            chooseTemplate e s now pair =
              (if time_After (DepartureAt e (lastStay pair)) now then Inr ''''
               else Inr (directOverride
                           (switchTemplate now (DepartureAt e (lastStay pair)) '''' zero_time)
                           (Channel (lastStay pair))))) \<and>
         (raw = tag @ '','' @ rest \<and> CHR '','' \<notin> set tag \<longrightarrow>
            (\<exists>sent. decodeState (raw, True) = Inr (tag, sent)) \<and>
            (strconv_Atoi (takeWhile (\<lambda>c. c \<noteq> CHR '','') rest) = None \<longrightarrow>
               decodeState (raw, True) = Inr (tag, zero_time)) \<and>
            (tag \<noteq> '''' \<and> tag \<noteq> ''OLD'' \<and> tag \<noteq> ''RECENT'' \<longrightarrow>
               chooseTemplate e s now pair = Inr ''''))"
proof -
  obtain st where st: "decodeState (raw, True) = Inr st"
    using decodeState_total by blast
  have total: "\<exists>t. chooseTemplate e s now pair = Inr t"
    using assms st by (simp add: chooseTemplate_def)
  have plain: "decodeState (raw, True) = Inr ('''', zero_time) \<and>
      chooseTemplate e s now pair =
        (if time_After (DepartureAt e (lastStay pair)) now then Inr ''''
         else Inr (directOverride
                     (switchTemplate now (DepartureAt e (lastStay pair)) '''' zero_time)
                     (Channel (lastStay pair))))"
    if "CHR '','' \<notin> set raw"
    using assms decodeState_no_comma [OF that, of True] by (simp add: chooseTemplate_def)
  have tagged: "(\<exists>sent. decodeState (raw, True) = Inr (tag, sent)) \<and>
      (strconv_Atoi (takeWhile (\<lambda>c. c \<noteq> CHR '','') rest) = None \<longrightarrow>
         decodeState (raw, True) = Inr (tag, zero_time)) \<and>
      (tag \<noteq> '''' \<and> tag \<noteq> ''OLD'' \<and> tag \<noteq> ''RECENT'' \<longrightarrow>
         chooseTemplate e s now pair = Inr '''')"
    if raw: "raw = tag @ '','' @ rest" and tag: "CHR '','' \<notin> set tag"
  proof -
    note dec = decodeState_tagged [OF tag, of rest]
    have unknown: "chooseTemplate e s now pair = Inr ''''"
      if "tag \<noteq> ''''" "tag \<noteq> ''OLD''" "tag \<noteq> ''RECENT''"
      using assms raw dec switchTemplate_unknown [OF that]
      by (simp add: chooseTemplate_def directOverride_def)
    from raw dec unknown show ?thesis by simp
  qed
  from total plain tagged show ?thesis by blast
qed

theorem malformed_state_decision_witness:
  "(CustomFieldValue (contact (examplePair [\<lparr>cfv_Value = ''RECENT'', cfv_Id = 7\<rparr>] ''2026-10-24''))
      (cf_Id (stateField exampleState)) = (''RECENT'', True) \<and>
    CHR '','' \<notin> set ''RECENT'' \<and>
    chooseTemplate exampleEnv exampleState exampleNow
      (examplePair [\<lparr>cfv_Value = ''RECENT'', cfv_Id = 7\<rparr>] ''2026-10-24'') = Inr ''RECENT'') \<and>
   (CustomFieldValue (contact (examplePair [\<lparr>cfv_Value = ''FOO,soon'', cfv_Id = 7\<rparr>] ''2026-10-24''))
      (cf_Id (stateField exampleState)) = (''FOO,soon'', True) \<and>
    (''FOO,soon'' = ''FOO'' @ '','' @ ''soon'' \<and> CHR '','' \<notin> set ''FOO'') \<and>
    strconv_Atoi (takeWhile (\<lambda>c. c \<noteq> CHR '','') ''soon'') = None \<and>
    (''FOO'' \<noteq> '''' \<and> ''FOO'' \<noteq> ''OLD'' \<and> ''FOO'' \<noteq> ''RECENT'') \<and>
    decodeState (''FOO,soon'', True) = Inr (''FOO'', zero_time) \<and>
    chooseTemplate exampleEnv exampleState exampleNow
      (examplePair [\<lparr>cfv_Value = ''FOO,soon'', cfv_Id = 7\<rparr>] ''2026-10-24'') = Inr '''')"
proof -
  have a1: "CustomFieldValue (contact (examplePair [\<lparr>cfv_Value = ''RECENT'', cfv_Id = 7\<rparr>] ''2026-10-24''))
      (cf_Id (stateField exampleState)) = (''RECENT'', True)"
    by (simp add: examplePair_def exampleContact_def exampleState_def CustomFieldValue_def)
  have a2: "CHR '','' \<notin> set ''RECENT''" by simp
  have a3: "\<not> time_After
       (DepartureAt exampleEnv (lastStay (examplePair [\<lparr>cfv_Value = ''RECENT'', cfv_Id = 7\<rparr>] ''2026-10-24'')))
       exampleNow"
    by (simp add: examplePair_def example_departure exampleNow_def time_After_def)
  have sw: "switchTemplate exampleNow 1792836000000000000 '''' zero_time = ''RECENT''"
    by (simp add: switchTemplate_def exampleNow_def time_defs)
  have first: "chooseTemplate exampleEnv exampleState exampleNow
      (examplePair [\<lparr>cfv_Value = ''RECENT'', cfv_Id = 7\<rparr>] ''2026-10-24'') = Inr ''RECENT''"
    using malformed_state_decision [OF a1, of exampleEnv exampleNow "''''" "''''",
        THEN conjunct2, THEN conjunct1, rule_format, OF a2, THEN conjunct2] a3
    by (simp add: examplePair_def example_departure example_channel sw directOverride_def)
  have b1: "CustomFieldValue (contact (examplePair [\<lparr>cfv_Value = ''FOO,soon'', cfv_Id = 7\<rparr>] ''2026-10-24''))
      (cf_Id (stateField exampleState)) = (''FOO,soon'', True)"
    by (simp add: examplePair_def exampleContact_def exampleState_def CustomFieldValue_def)
  have b2: "''FOO,soon'' = ''FOO'' @ '','' @ ''soon'' \<and> CHR '','' \<notin> set ''FOO''" by simp
  have b3: "strconv_Atoi (takeWhile (\<lambda>c. c \<noteq> CHR '','') ''soon'') = None"
    by (simp add: strconv_Atoi_def is_digit_def)
  have b4: "''FOO'' \<noteq> '''' \<and> ''FOO'' \<noteq> ''OLD'' \<and> ''FOO'' \<noteq> ''RECENT''" by simp
  note tagged = malformed_state_decision [OF b1, of exampleEnv exampleNow "''FOO''" "''soon''",
      THEN conjunct2, THEN conjunct2, rule_format, OF b2]
  note second = tagged [THEN conjunct2, THEN conjunct1, rule_format, OF b3]
  note third = tagged [THEN conjunct2, THEN conjunct2, rule_format, OF b4]
  show ?thesis
    by (intro conjI a1 a2 first b1 b2 b3 b4 second third)
qed

text \<open>
  C1, as the specification words it, fails. Ten days after the departure a stored state
  with the unknown tag FOO gives no template, where the never-messaged guest gets RECENT;
  63 days after the departure a stored state OLD with an unparseable timestamp gives
  RECENT, where the never-messaged guest gets OLD.
\<close>

theorem malformed_state_is_not_never_messaged:
  "chooseTemplate exampleEnv exampleState exampleNow
     (examplePair [\<lparr>cfv_Value = ''FOO,1700000000'', cfv_Id = 7\<rparr>] ''2026-10-24'') = Inr '''' \<and>
   chooseTemplate exampleEnv exampleState exampleNow (examplePair [] ''2026-10-24'') = Inr ''RECENT'' \<and>
   chooseTemplate exampleEnv exampleState exampleNow
     (examplePair [\<lparr>cfv_Value = ''OLD,soon'', cfv_Id = 7\<rparr>] ''2026-09-01'') = Inr ''RECENT'' \<and>
   chooseTemplate exampleEnv exampleState exampleNow (examplePair [] ''2026-09-01'') = Inr ''OLD''"
proof -
  have "decodeState (''OLD,soon'', True) = Inr (''OLD'', zero_time)"
    by (simp add: decodeState_def split_eval strconv_Atoi_def is_digit_def)
  then show ?thesis
    by (simp add: chooseTemplate_def examplePair_def exampleContact_def exampleState_def
        CustomFieldValue_def example_decode example_departure example_channel exampleNow_def
        switchTemplate_def directOverride_def time_defs)
qed

section \<open>The guest map\<close>

text \<open>An entry of the guest map, once made, is never changed by a later booking.\<close>

lemma rememberStay_keeps:
  "contacts s p = Some pair \<Longrightarrow> contacts (rememberStay e s ct b) p = Some pair"
  by (auto simp: rememberStay_def Let_def split: option.splits)

lemma aggregateBooking_keeps:
  assumes "contacts s p = Some pair" and "aggregateBooking e b (s, r) = (h, s', r')"
  shows "contacts s' p = Some pair"
  using assms
  by (auto simp: aggregateBooking_def Let_def rememberStay_keeps
      split: if_splits prod.splits sum.splits)

lemma aggregateBookings_keeps:
  "contacts s p = Some pair \<Longrightarrow> aggregateBookings e bs (s, r) = (h, s', r') \<Longrightarrow>
     contacts s' p = Some pair"
proof (induction bs arbitrary: s r)
  case Nil
  then show ?case by simp
next
  case (Cons b bs)
  obtain h1 s1 r1 where step: "aggregateBooking e b (s, r) = (h1, s1, r1)"
    by (cases "aggregateBooking e b (s, r)") auto
  have kept: "contacts s1 p = Some pair"
    using Cons.prems(1) step by (rule aggregateBooking_keeps)
  show ?case
  proof (cases h1)
    case None
    with step Cons.prems(2) have "aggregateBookings e bs (s1, r1) = (h, s', r')" by simp
    with kept show ?thesis by (rule Cons.IH)
  next
    case (Some a)
    with step Cons.prems(2) have "s' = s1" by simp
    with kept show ?thesis by simp
  qed
qed

text \<open>
  C2 at a concrete input. Two bookings of the same guest, neither cancelled: the first
  departs on 2026-09-01, the second on 2026-10-01. The second departs later, and the guest
  map still holds the first.
\<close>

theorem first_booking_is_kept:
  "time_Before
     (DepartureAt exampleEnv (exampleBooking ''Ada Lovelace'' ''+447700900123'' ''2026-09-01''))
     (DepartureAt exampleEnv (exampleBooking ''Ada Lovelace'' ''+447700900123'' ''2026-10-01'')) \<and>
   (case aggregateBookings exampleEnv
           [exampleBooking ''Ada Lovelace'' ''447700900123'' ''2026-09-01'',
            exampleBooking ''Ada Lovelace'' ''447700900123'' ''2026-10-01'']
           (exampleState, exampleRemote) of
      (h, s, r) \<Rightarrow> (h, map_option lastStay (contacts s ''+447700900123'')))
   = (None, Some (exampleBooking ''Ada Lovelace'' ''+447700900123'' ''2026-09-01''))"
proof -
  have later: "time_Before
     (DepartureAt exampleEnv (exampleBooking ''Ada Lovelace'' ''+447700900123'' ''2026-09-01''))
     (DepartureAt exampleEnv (exampleBooking ''Ada Lovelace'' ''+447700900123'' ''2026-10-01''))"
    by (simp add: example_departure time_Before_def)
  have norm: "normalisePhone exampleEnv (exampleBooking ''Ada Lovelace'' ''447700900123'' out)
                = exampleBooking ''Ada Lovelace'' ''+447700900123'' out" for out
    by (simp add: normalisePhone_def strings_HasPrefix_def exampleEnv_def exampleBooking_def
        is_digit_def)
  have status: "Status (exampleBooking n p out) \<noteq> ''cancelled''" for n p out
    by (simp add: exampleBooking_def)
  have phone: "GuestPhone (exampleBooking n p out) = p" for n p out
    by (simp add: exampleBooking_def)
  have new: "bookingToNewContact s (exampleBooking ''Ada Lovelace'' ''+447700900123'' out)
      = Inr \<lparr>Id = 0, FirstName = ''Ada '', LastName = ''Lovelace'', Phone = ''+447700900123'',
             Email = ''guest@example.org'', CustomFieldValues = [],
             Lists = [\<lparr>list_Id = listId s, list_Name = ''''\<rparr>]\<rparr>" for s out
    by (simp add: bookingToNewContact_def exampleBooking_def split_eval)
  have get: "getAnswer exampleEnv r p =
      (case find (\<lambda>c. Phone c = p) (created r) of
         Some c \<Rightarrow> Response (Inr c) | None \<Rightarrow> Response (Inl ErrNotFound))"
    for r p
    by (simp add: exampleEnv_def)
  have post: "postAnswer exampleEnv r c = Response (Inr (int (length (created r)) + 1))" for r c
    by (simp add: exampleEnv_def)
  define c1 where "c1 = \<lparr>Id = 1, FirstName = ''Ada '', LastName = ''Lovelace'',
                           Phone = ''+447700900123'', Email = ''guest@example.org'',
                           CustomFieldValues = [], Lists = [\<lparr>list_Id = 3, list_Name = ''''\<rparr>]\<rparr>"
  define s1 where "s1 = exampleState\<lparr>contacts :=
      [''+447700900123'' \<mapsto>
         \<lparr>contact = c1, lastStay = exampleBooking ''Ada Lovelace'' ''+447700900123'' ''2026-09-01''\<rparr>]\<rparr>"
  define r1 where "r1 = exampleRemote\<lparr>created := [c1]\<rparr>"
  have step1: "aggregateBooking exampleEnv
        (exampleBooking ''Ada Lovelace'' ''447700900123'' ''2026-09-01'') (exampleState, exampleRemote)
      = (None, s1, r1)"
    by (simp add: aggregateBooking_def status norm phone new get post GetContactByPhone_def
        CreateContact_def RoundTrip_def rememberStay_def exampleRemote_def exampleState_def
        Let_def s1_def r1_def c1_def)
  have step2: "aggregateBooking exampleEnv
        (exampleBooking ''Ada Lovelace'' ''447700900123'' ''2026-10-01'') (s1, r1)
      = (None, s1, r1)"
    by (simp add: aggregateBooking_def status norm phone get GetContactByPhone_def
        RoundTrip_def rememberStay_def Let_def s1_def r1_def c1_def)
  have map1: "map_option lastStay (contacts s1 ''+447700900123'') =
        Some (exampleBooking ''Ada Lovelace'' ''+447700900123'' ''2026-09-01'')"
    by (simp add: s1_def)
  from later step1 step2 map1 show ?thesis by simp
qed

section \<open>Failures while sending\<close>

text \<open>
  What the loop body does for a guest for whom a template is chosen, by what becomes of the
  two requests. A send that returns an error leaves the service as it was and the loop goes
  on; a send that gets no response panics in the transport; after a send that is accepted,
  an update that returns an error exits with status 1 and an update that gets no response
  panics.
\<close>

lemma processGuest_send:
  assumes "chooseTemplate e s now pair = Inr template" and "template \<noteq> ''''"
  shows "sendAnswer e r (message e cfg now (contact pair) template) = NoResponse \<Longrightarrow>
           processGuest e cfg s now pair r = (Some NilDereference, r)"
    and "sendAnswer e r (message e cfg now (contact pair) template) = Response (Inl err) \<Longrightarrow>
           processGuest e cfg s now pair r = (None, r)"
  using assms by (simp_all add: processGuest_def SendMessageToContacts_def RoundTrip_def)

lemma processGuest_store:
  assumes "chooseTemplate e s now pair = Inr template" and "template \<noteq> ''''"
    and "sendAnswer e r (message e cfg now (contact pair) template) = Response (Inr msgId)"
    and "r' = r\<lparr>scheduled := scheduled r @ [message e cfg now (contact pair) template]\<rparr>"
  shows "putAnswer e r' (cf_Id (stateField s)) (Id (contact pair)) (newStateRaw template now)
             = Response (Some err) \<Longrightarrow>
           processGuest e cfg s now pair r = (Some (OsExit 1), r')"
    and "putAnswer e r' (cf_Id (stateField s)) (Id (contact pair)) (newStateRaw template now)
             = NoResponse \<Longrightarrow>
           processGuest e cfg s now pair r = (Some NilDereference, r')"
    and "putAnswer e r' (cf_Id (stateField s)) (Id (contact pair)) (newStateRaw template now)
             = Response None \<Longrightarrow>
           processGuest e cfg s now pair r =
             (None, r'\<lparr>stored := (cf_Id (stateField s), Id (contact pair), newStateRaw template now)
                                  # stored r'\<rparr>)"
  using assms
  by (simp_all add: processGuest_def SendMessageToContacts_def SetCustomFieldValue_def
      RoundTrip_def)

lemma sendTexts_after_send_error:
  assumes "chooseTemplate e s now pair = Inr template" and "template \<noteq> ''''"
    and "sendAnswer e r (message e cfg now (contact pair) template) = Response (Inl err)"
  shows "sendTexts e cfg s now (pair # pairs) r = sendTexts e cfg s now pairs r"
  using processGuest_send(2) [OF assms] by simp

lemma sendTexts_after_store_error:
  assumes "chooseTemplate e s now pair = Inr template" and "template \<noteq> ''''"
    and "sendAnswer e r (message e cfg now (contact pair) template) = Response (Inr msgId)"
    and "r' = r\<lparr>scheduled := scheduled r @ [message e cfg now (contact pair) template]\<rparr>"
    and "putAnswer e r' (cf_Id (stateField s)) (Id (contact pair)) (newStateRaw template now)
           = Response (Some err)"
  shows "sendTexts e cfg s now (pair # pairs) r = (Some (OsExit 1), r')"
  using processGuest_store(1) [OF assms] by simp

lemma sendTexts_after_unreachable_send:
  assumes "chooseTemplate e s now pair = Inr template" and "template \<noteq> ''''"
    and "sendAnswer e r (message e cfg now (contact pair) template) = NoResponse"
  shows "sendTexts e cfg s now (pair # pairs) r = (Some NilDereference, r)"
  using processGuest_send(1) [OF assms] by simp

lemma DepartureAt_same_parser:
  "timeParse e' = timeParse e \<Longrightarrow> DepartureAt e' b = DepartureAt e b"
  by (simp add: DepartureAt_def)

lemma example_choose:
  assumes "timeParse e = parseDateTime"
  shows "chooseTemplate e exampleState exampleNow (examplePair [] ''2026-10-24'') = Inr ''RECENT''"
    and "chooseTemplate e exampleState exampleNow (examplePair [] ''2026-09-01'') = Inr ''OLD''"
proof -
  have "timeParse e = timeParse exampleEnv"
    using assms by (simp add: exampleEnv_def)
  then have dep: "DepartureAt e (exampleBooking n p ''2026-10-24'') = 1792836000000000000"
    "DepartureAt e (exampleBooking n p ''2026-09-01'') = 1788256800000000000" for n p
    by (simp_all add: DepartureAt_same_parser example_departure)
  show "chooseTemplate e exampleState exampleNow (examplePair [] ''2026-10-24'') = Inr ''RECENT''"
    by (simp add: chooseTemplate_def examplePair_def exampleContact_def exampleState_def
        CustomFieldValue_def example_decode dep example_channel exampleNow_def
        switchTemplate_def directOverride_def time_defs)
  show "chooseTemplate e exampleState exampleNow (examplePair [] ''2026-09-01'') = Inr ''OLD''"
    by (simp add: chooseTemplate_def examplePair_def exampleContact_def exampleState_def
        CustomFieldValue_def example_decode dep example_channel exampleNow_def
        switchTemplate_def directOverride_def time_defs)
qed

text \<open>
  C8 at a concrete input. Two guests are due a message, RECENT for the first and OLD for
  the second. When the service answers every message with an error, the loop visits both
  guests and ends normally with the service unchanged; when it accepts the first message
  and answers the update of the state field with an error, the loop ends with exit status
  1. When the request for the first message gets no response, the transport panics on the
  nil response: the loop ends there and the second guest is not processed.
\<close>

theorem unreachable_send_ends_run:
  "chooseTemplate sendUnreachableEnv exampleState exampleNow (examplePair [] ''2026-10-24'')
     = Inr ''RECENT'' \<and>
   sendAnswer sendUnreachableEnv exampleRemote
     (message sendUnreachableEnv exampleConfig exampleNow (contact (examplePair [] ''2026-10-24''))
        ''RECENT'') = NoResponse \<and>
   sendTexts sendUnreachableEnv exampleConfig exampleState exampleNow
     [examplePair [] ''2026-10-24'', examplePair [] ''2026-09-01''] exampleRemote
     = (Some NilDereference, exampleRemote) \<and>
   sendTexts sendFailsEnv exampleConfig exampleState exampleNow
     [examplePair [] ''2026-10-24'', examplePair [] ''2026-09-01''] exampleRemote
     = (None, exampleRemote) \<and>
   sendTexts storeFailsEnv exampleConfig exampleState exampleNow
     [examplePair [] ''2026-10-24'', examplePair [] ''2026-09-01''] exampleRemote
     = (Some (OsExit 1),
        exampleRemote\<lparr>scheduled := scheduled exampleRemote @
          [message storeFailsEnv exampleConfig exampleNow (contact (examplePair [] ''2026-10-24''))
             ''RECENT'']\<rparr>)"
proof -
  have n: "''RECENT'' \<noteq> ''''" "''OLD'' \<noteq> ''''" by simp_all
  have u1: "chooseTemplate sendUnreachableEnv exampleState exampleNow (examplePair [] ''2026-10-24'')
     = Inr ''RECENT''"
    by (rule example_choose) (simp add: sendUnreachableEnv_def exampleEnv_def)
  have u2: "sendAnswer sendUnreachableEnv exampleRemote
     (message sendUnreachableEnv exampleConfig exampleNow (contact (examplePair [] ''2026-10-24''))
        ''RECENT'') = NoResponse"
    by (simp add: sendUnreachableEnv_def)
  note u3 = sendTexts_after_unreachable_send [OF u1 n(1) u2,
      of "[examplePair [] ''2026-09-01'']"]
  have parser: "timeParse sendFailsEnv = parseDateTime"
    by (simp add: sendFailsEnv_def exampleEnv_def)
  have refused: "sendAnswer sendFailsEnv r m = Response (Inl (ErrResponse ''message refused''))"
    for r m
    by (simp add: sendFailsEnv_def)
  have f2: "sendTexts sendFailsEnv exampleConfig exampleState exampleNow
      [examplePair [] ''2026-09-01''] exampleRemote = (None, exampleRemote)"
    using sendTexts_after_send_error [OF example_choose(2) [OF parser] n(2) refused,
        where cfg = exampleConfig and r = exampleRemote and pairs = "[]"]
    by simp
  have f1: "sendTexts sendFailsEnv exampleConfig exampleState exampleNow
      [examplePair [] ''2026-10-24'', examplePair [] ''2026-09-01''] exampleRemote
      = (None, exampleRemote)"
    using sendTexts_after_send_error [OF example_choose(1) [OF parser] n(1) refused,
        where cfg = exampleConfig and r = exampleRemote
          and pairs = "[examplePair [] ''2026-09-01'']"] f2
    by simp
  have parser': "timeParse storeFailsEnv = parseDateTime"
    by (simp add: storeFailsEnv_def exampleEnv_def)
  have accepted: "sendAnswer storeFailsEnv exampleRemote m = Response (Inr 1)" for m
    by (simp add: storeFailsEnv_def exampleEnv_def exampleRemote_def)
  have kept: "putAnswer storeFailsEnv r f c v = Response (Some (ErrResponse ''update refused''))"
    for r f c v
    by (simp add: storeFailsEnv_def)
  note g1 = sendTexts_after_store_error [OF example_choose(1) [OF parser'] n(1) accepted refl kept,
      where cfg = exampleConfig and pairs = "[examplePair [] ''2026-09-01'']"]
  show ?thesis
    by (intro conjI u1 u2 u3 f1 g1)
qed

end
